theory Spec2Isabelle
  imports Complex_Main "HOL-Library.Word"
begin

section \<open>Errors raised by the scripts and the libraries they call\<close>

text \<open>
  Floating-point samples and coordinates are modelled as real numbers: rounding is
  idealised away, so "equal within floating-point tolerance" becomes equality of reals.
  Every exception that the modelled code can raise is a value of \<open>error\<close>.
\<close>

datatype error =
    TransformNotInvertibleError
  | ZeroDivisionError
  | IndexError
  | ValueError
  | WindowError

section \<open>Affine transforms\<close>

text \<open>
  The six coefficients of a raster's transform, as the \<^verbatim>\<open>affine\<close> package keeps them:
  \<open>Affine a b c d e f\<close> maps \<open>(col, row)\<close> to \<open>(a*col + b*row + c, d*col + e*row + f)\<close>.
\<close>

datatype affine = Affine real real real real real real

fun determinant :: "affine \<Rightarrow> real" where
  "determinant (Affine a b c d e f) = a * e - b * d"

text \<open>\<^verbatim>\<open>transform * (vx, vy)\<close>\<close>

fun affine_mul :: "affine \<Rightarrow> real \<times> real \<Rightarrow> real \<times> real" where
  "affine_mul (Affine a b c d e f) (vx, vy) = (vx * a + vy * b + c, vx * d + vy * e + f)"

text \<open>\<^verbatim>\<open>~transform\<close>: raises when the determinant is zero.\<close>

fun affine_invert :: "affine \<Rightarrow> error + affine" where
  "affine_invert (Affine a b c d e f) =
     (if determinant (Affine a b c d e f) = 0 then Inl TransformNotInvertibleError
      else
        let idet = 1 / determinant (Affine a b c d e f);
            ra = e * idet;
            rb = - b * idet;
            rd = - d * idet;
            re = a * idet
        in Inr (Affine ra rb (- c * ra - f * rb) rd re (- c * rd - f * re)))"

section \<open>Shapefile to YOLO annotations (tif\_shp\_to\_yolo\_png\_converter.py)\<close>

text \<open>Bounds are \<open>(minx, miny, maxx, maxy)\<close>, as \<^verbatim>\<open>geometry.bounds\<close> returns them.\<close>

type_synonym bounds = "real \<times> real \<times> real \<times> real"

text \<open>A row of the feature set: the bounds of its geometry and its attribute fields.\<close>

datatype feature = Feature (geometry_bounds: bounds) (attributes: "(string \<times> string) list")

text \<open>
  One line of a YOLO label file: \<^verbatim>\<open>class_id x_center y_center width height\<close>.
\<close>

datatype annotation =
  Annotation (ann_class_id: int) (ann_x_center: real) (ann_y_center: real)
             (ann_width: real) (ann_height: real)

definition convert_geo_to_pixel_coords :: "bounds \<Rightarrow> affine \<Rightarrow> error + bounds" where
  "convert_geo_to_pixel_coords geo_coords transform =
     (case geo_coords of (minx, miny, maxx, maxy) \<Rightarrow>
        (case affine_invert transform of
           Inl err \<Rightarrow> Inl err
         | Inr inverse_t \<Rightarrow>
             (case affine_mul inverse_t (minx, miny) of (px_minx, px_miny) \<Rightarrow>
              (case affine_mul inverse_t (maxx, maxy) of (px_maxx, px_maxy) \<Rightarrow>
                 Inr (px_minx, px_maxy, px_maxx, px_miny)))))"

text \<open>
  The body of the loop of \<^verbatim>\<open>shp_to_yolo\<close> for one row. Dividing a float by the
  integer 0 raises \<^verbatim>\<open>ZeroDivisionError\<close>; the first division is by the image width.
\<close>

definition shp_to_yolo_row :: "affine \<Rightarrow> int \<Rightarrow> int \<Rightarrow> feature \<Rightarrow> error + annotation" where
  "shp_to_yolo_row transform img_width img_height row =
     (case convert_geo_to_pixel_coords (geometry_bounds row) transform of
        Inl err \<Rightarrow> Inl err
      | Inr (px_minx, px_miny, px_maxx, px_maxy) \<Rightarrow>
          let x_center = (px_minx + px_maxx) / 2;
              y_center = (px_miny + px_maxy) / 2;
              width = px_maxx - px_minx;
              height = px_maxy - px_miny
          in if img_width = 0 then Inl ZeroDivisionError
             else if img_height = 0 then Inl ZeroDivisionError
             else Inr (Annotation 0 (x_center / of_int img_width) (y_center / of_int img_height)
                                    (width / of_int img_width) (height / of_int img_height)))"

text \<open>
  The loop over the rows, writing one line per row into the label file: the lines written,
  in order, and the exception that ended the loop, if any. The lines written before an
  exception stay in the file.
\<close>

fun shp_to_yolo ::
  "affine \<Rightarrow> int \<Rightarrow> int \<Rightarrow> feature list \<Rightarrow> annotation list \<times> error option" where
  "shp_to_yolo transform img_width img_height [] = ([], None)"
| "shp_to_yolo transform img_width img_height (row # rows) =
     (case shp_to_yolo_row transform img_width img_height row of
        Inl err \<Rightarrow> ([], Some err)
      | Inr line \<Rightarrow>
          (case shp_to_yolo transform img_width img_height rows of
             (lines, raised) \<Rightarrow> (line # lines, raised)))"

section \<open>YOLO detections to shapefile (yolo2shp.py)\<close>

text \<open>
  \<^verbatim>\<open>shapely.geometry.box(minx, miny, maxx, maxy)\<close>: the closed ring of the four corners,
  counter-clockwise from the lower right one.
\<close>

type_synonym ring = "(real \<times> real) list"

definition box :: "real \<Rightarrow> real \<Rightarrow> real \<Rightarrow> real \<Rightarrow> ring" where
  "box minx miny maxx maxy =
     [(maxx, miny), (maxx, maxy), (minx, maxy), (minx, miny), (maxx, miny)]"

text \<open>The geometry built for one detection row.\<close>

definition detection_geom :: "affine \<Rightarrow> int \<Rightarrow> int \<Rightarrow> annotation \<Rightarrow> ring" where
  "detection_geom transform src_width src_height row =
     (let x_center = ann_x_center row;
          y_center = ann_y_center row;
          width = ann_width row;
          height = ann_height row;
          x1 = (x_center - width / 2) * of_int src_width;
          y1 = (y_center - height / 2) * of_int src_height;
          x2 = (x_center + width / 2) * of_int src_width;
          y2 = (y_center + height / 2) * of_int src_height;
          top_left = affine_mul transform (x1, y1);
          bottom_right = affine_mul transform (x2, y2)
      in box (fst top_left) (snd bottom_right) (fst bottom_right) (snd top_left))"

text \<open>
  The rows of the output data frame: the geometry column paired with the \<^verbatim>\<open>class_id\<close>
  column of the detections.
\<close>

definition detections_to_shp ::
  "affine \<Rightarrow> int \<Rightarrow> int \<Rightarrow> annotation list \<Rightarrow> (ring \<times> int) list" where
  "detections_to_shp transform src_width src_height detections =
     zip (map (detection_geom transform src_width src_height) detections)
         (map ann_class_id detections)"

text \<open>
  The conversion that the specification describes: all four corners of the geographic box
  go through the inverse transform, and the pixel box is the minimum and maximum over the
  four images.
\<close>

definition spec_four_corner_pixel_box :: "bounds \<Rightarrow> affine \<Rightarrow> error + bounds" where
  "spec_four_corner_pixel_box geo_coords transform =
     (case geo_coords of (minx, miny, maxx, maxy) \<Rightarrow>
        (case affine_invert transform of
           Inl err \<Rightarrow> Inl err
         | Inr inverse_t \<Rightarrow>
             let corners = map (affine_mul inverse_t)
                             [(minx, miny), (minx, maxy), (maxx, miny), (maxx, maxy)];
                 cols = map fst corners;
                 rows = map snd corners
             in Inr (Min (set cols), Min (set rows), Max (set cols), Max (set rows))))"

text \<open>The geometry that restates a bounds tuple as a box.\<close>

definition bounds_box :: "bounds \<Rightarrow> ring" where
  "bounds_box geo_bounds =
     (case geo_bounds of (minx, miny, maxx, maxy) \<Rightarrow> box minx miny maxx maxy)"

section \<open>Drawing annotations (draw\_bboxes.py)\<close>

text \<open>
  The rectangle \<open>[left, top, right, bottom]\<close> computed for one label line on an image of
  the given size. The class id of the line is parsed and not used.
\<close>

definition label_rectangle :: "int \<Rightarrow> int \<Rightarrow> annotation \<Rightarrow> bounds" where
  "label_rectangle img_width img_height line =
     (let x_center = ann_x_center line * of_int img_width;
          y_center = ann_y_center line * of_int img_height;
          w = ann_width line * of_int img_width;
          h = ann_height line * of_int img_height;
          left = x_center - (w / 2);
          top = y_center - (h / 2);
          right = x_center + (w / 2);
          bottom = y_center + (h / 2)
      in (left, top, right, bottom))"

text \<open>
  The loop over the label lines. The drawing call \<^verbatim>\<open>draw.rectangle\<close> of the imaging
  library is a parameter: it gives \<open>None\<close> when it has drawn the rectangle and \<open>Some err\<close>
  when it raises, which ends the loop. The result is the rectangles drawn, in order, and
  the exception raised, if any.
\<close>

fun draw_bounding_boxes ::
  "(bounds \<Rightarrow> error option) \<Rightarrow> int \<Rightarrow> int \<Rightarrow> annotation list
     \<Rightarrow> bounds list \<times> error option" where
  "draw_bounding_boxes rectangle img_width img_height [] = ([], None)"
| "draw_bounding_boxes rectangle img_width img_height (line # lines) =
     (case rectangle (label_rectangle img_width img_height line) of
        Some err \<Rightarrow> ([], Some err)
      | None \<Rightarrow>
          (case draw_bounding_boxes rectangle img_width img_height lines of
             (drawn, raised) \<Rightarrow> (label_rectangle img_width img_height line # drawn, raised)))"

section \<open>Percentile stretch to 8 bits (tif2png.py, tif\_to\_png\_squares.py)\<close>

text \<open>
  A band is a two-dimensional array of samples, a list of rows. Input samples are finite
  reals. The result of a float32 division may be infinite or not a number.
\<close>

type_synonym band = "real list list"

datatype npfloat = Finite real | PosInf | NegInf | NaN

text \<open>The literal \<^verbatim>\<open>-3.40282e+38\<close> of the mask.\<close>

definition nodata_threshold :: real where
  "nodata_threshold = - 340282 * 10 ^ 33"

definition valid_sample :: "real \<Rightarrow> bool" where
  "valid_sample v \<longleftrightarrow> v > nodata_threshold"

text \<open>
  \<^verbatim>\<open>np.percentile(a, q)\<close> with the default linear interpolation between the two nearest
  ranks of the sorted samples. It has no value on an empty array.
\<close>

definition np_percentile :: "real list \<Rightarrow> real \<Rightarrow> real option" where
  "np_percentile a q =
     (if a = [] then None
      else
        let s = sort a;
            n = length s;
            pos = q / 100 * real (n - 1);
            lo = nat \<lfloor>pos\<rfloor>;
            hi = min (lo + 1) (n - 1)
        in Some (s ! lo + (pos - real lo) * (s ! hi - s ! lo)))"

text \<open>\<^verbatim>\<open>np.clip(v, lo, hi)\<close> is \<^verbatim>\<open>minimum(maximum(v, lo), hi)\<close>.\<close>

definition np_clip :: "real \<Rightarrow> real \<Rightarrow> real \<Rightarrow> real" where
  "np_clip v lo hi = min (max v lo) hi"

text \<open>Float division: a zero divisor gives NaN for 0/0 and an infinity otherwise.\<close>

definition np_divide :: "real \<Rightarrow> real \<Rightarrow> npfloat" where
  "np_divide x y =
     (if y = 0 then (if x = 0 then NaN else if 0 < x then PosInf else NegInf)
      else Finite (x / y))"

fun times_255 :: "npfloat \<Rightarrow> npfloat" where
  "times_255 (Finite v) = Finite (v * 255)"
| "times_255 PosInf = PosInf"
| "times_255 NegInf = NegInf"
| "times_255 NaN = NaN"

text \<open>
  The body of the loop over the bands: \<open>None\<close> is the \<^verbatim>\<open>continue\<close> of a band with no
  valid sample, \<open>Some\<close> the scaled band that is appended. The percentiles are taken over
  \<^verbatim>\<open>band[valid_mask]\<close>, the valid samples in row-major order; they exist, since the
  mask has a true entry.
\<close>

definition scale_band :: "band \<Rightarrow> npfloat list list option" where
  "scale_band band =
     (let valid_mask = map (map valid_sample) band
      in if \<not> list_ex (list_ex id) valid_mask then None
         else
           (case (np_percentile (filter valid_sample (concat band)) 2,
                  np_percentile (filter valid_sample (concat band)) 98) of
              (Some p2, Some p98) \<Rightarrow>
                let clipped = map (map (\<lambda>v. np_clip v p2 p98)) band;
                    scaled = map (map (\<lambda>v. times_255 (np_divide (v - p2) (p98 - p2)))) clipped;
                    masked = map2 (map2 (\<lambda>m v. if m then v else Finite 0)) valid_mask scaled
                in Some masked
            | _ \<Rightarrow> None))"

fun scale_bands :: "band list \<Rightarrow> npfloat list list list" where
  "scale_bands [] = []"
| "scale_bands (band # bands) =
     (case scale_band band of
        None \<Rightarrow> scale_bands bands
      | Some scaled \<Rightarrow> scaled # scale_bands bands)"

text \<open>
  \<^verbatim>\<open>astype(np.uint8)\<close> truncates a float towards zero. The conversion of NaN, of an
  infinity and of a value outside the range of the type is undefined: \<open>None\<close>.
\<close>

definition astype_uint8 :: "npfloat \<Rightarrow> 8 word option" where
  "astype_uint8 x =
     (case x of
        Finite v \<Rightarrow>
          if - 1 < v \<and> v < 256 then Some (word_of_int (if v < 0 then \<lceil>v\<rceil> else \<lfloor>v\<rfloor>))
          else None
      | _ \<Rightarrow> None)"

text \<open>\<^verbatim>\<open>np.dstack\<close>: the arrays of equal shape become the channels of each pixel.\<close>

definition dstack :: "'a list list list \<Rightarrow> 'a list list list" where
  "dstack arrays =
     (case arrays of
        [] \<Rightarrow> []
      | first # _ \<Rightarrow>
          map (\<lambda>r. map (\<lambda>c. map (\<lambda>b. b ! r ! c) arrays) [0..<length (first ! r)])
              [0..<length first])"

text \<open>
  \<^verbatim>\<open>convert_tif_to_png\<close> on the bands of the raster. Reading band 1, 2 or 3 of a raster
  with fewer bands raises. The 8-bit array is handed to \<^verbatim>\<open>Image.fromarray(array, 'RGB')\<close>
  and saved; these calls of the imaging library are the parameter \<open>save_image\<close>, which
  gives \<open>Some err\<close> when one of them raises. The result \<open>None\<close> is "no file written, no
  exception"; \<open>Some array\<close> is the array that was saved.
\<close>

definition convert_tif_to_png ::
  "(8 word option list list list \<Rightarrow> error option) \<Rightarrow> band list
     \<Rightarrow> error + 8 word option list list list option" where
  "convert_tif_to_png save_image src_bands =
     (if length src_bands < 3 then Inl IndexError
      else
        let bands = take 3 src_bands;
            scaled_bands = scale_bands bands
        in if scaled_bands = [] then Inr None
           else
             let array = map (map (map astype_uint8)) (dstack scaled_bands)
             in (case save_image array of
                   Some err \<Rightarrow> Inl err
                 | None \<Rightarrow> Inr (Some array)))"

text \<open>
  The variant of tif\_shp\_to\_yolo\_png\_converter.py: no mask, the percentiles are taken
  over all samples of the band, and no band is skipped.
\<close>

definition scale_band_unmasked :: "band \<Rightarrow> npfloat list list option" where
  "scale_band_unmasked band =
     (case (np_percentile (concat band) 2, np_percentile (concat band) 98) of
        (Some p2, Some p98) \<Rightarrow>
          let clipped = map (map (\<lambda>v. np_clip v p2 p98)) band
          in Some (map (map (\<lambda>v. times_255 (np_divide (v - p2) (p98 - p2)))) clipped)
      | _ \<Rightarrow> None)"

section \<open>Clipping a raster by a polygon (raster\_clipper.py)\<close>

text \<open>
  An open raster dataset: its bands, each a list of \<open>height\<close> rows of \<open>width\<close> samples, its
  transform, its width and height, and its no-data value, if it has one.
\<close>

datatype raster =
  Raster (raster_bands: "band list") (raster_transform: affine)
         (raster_width: nat) (raster_height: nat) (raster_nodata: "real option")

text \<open>
  The \<^verbatim>\<open>coordinates\<close> of the GeoJSON mapping of a polygon: its rings, the exterior one
  first, each a list of positions. A position has two coordinates and possibly further ones.
\<close>

type_synonym position = "real \<times> real \<times> real list"

definition make_2d :: "position list list \<Rightarrow> ring list" where
  "make_2d coordinates = map (map (\<lambda>(x, y, rest). (x, y))) coordinates"

text \<open>
  The calls of the raster library that \<^verbatim>\<open>clip_raster_with_polygon\<close> makes.
  \<^verbatim>\<open>geometry_window\<close> takes the bounds of the shapes in pixel space (all positions of all
  rings go through the inverse transform), rounds them outwards to whole pixels and
  intersects that window with the window of the raster; windows that do not intersect raise
  \<^verbatim>\<open>WindowError\<close>. Shapes without a position have no bounds, and the call raises. The
  window is \<open>(col_off, row_off, width, height)\<close>.
\<close>

definition geometry_window :: "raster \<Rightarrow> ring list list \<Rightarrow> error + nat \<times> nat \<times> nat \<times> nat" where
  "geometry_window dataset shapes =
     (case affine_invert (raster_transform dataset) of
        Inl err \<Rightarrow> Inl err
      | Inr inverse_t \<Rightarrow>
          let positions = map (affine_mul inverse_t) (concat (concat shapes))
          in if positions = [] then Inl ValueError
             else
               let cols = map fst positions;
                   rows = map snd positions;
                   row_start = \<lfloor>Min (set rows)\<rfloor>;
                   row_stop = \<lceil>Max (set rows)\<rceil>;
                   col_start = \<lfloor>Min (set cols)\<rfloor>;
                   col_stop = \<lceil>Max (set cols)\<rceil>
               in if \<not> (col_start < int (raster_width dataset) \<and> 0 < col_stop
                         \<and> row_start < int (raster_height dataset) \<and> 0 < row_stop)
                  then Inl WindowError
                  else
                    let col_off = max col_start 0;
                        row_off = max row_start 0
                    in Inr (nat col_off, nat row_off,
                            nat (min col_stop (int (raster_width dataset)) - col_off),
                            nat (min row_stop (int (raster_height dataset)) - row_off)))"

text \<open>
  \<^verbatim>\<open>window_transform\<close>: the transform of the source with its offset moved to the image of
  the upper left corner of the window.
\<close>

fun window_transform :: "affine \<Rightarrow> nat \<Rightarrow> nat \<Rightarrow> affine" where
  "window_transform (Affine a b c d e f) col_off row_off =
     (case affine_mul (Affine a b c d e f) (real col_off, real row_off) of
        (x, y) \<Rightarrow> Affine a b x d e y)"

text \<open>
  Rasterization without \<^verbatim>\<open>all_touched\<close>: a cell belongs to a polygon when its centre is
  inside it, by the parity of the edges of the rings that a ray from the centre crosses.
\<close>

definition crosses :: "real \<times> real \<Rightarrow> (real \<times> real) \<times> (real \<times> real) \<Rightarrow> bool" where
  "crosses p edge =
     (case p of (px, py) \<Rightarrow>
        (case edge of ((x1, y1), (x2, y2)) \<Rightarrow>
           ((y1 \<le> py \<and> py < y2) \<or> (y2 \<le> py \<and> py < y1))
           \<and> px < x1 + (py - y1) * (x2 - x1) / (y2 - y1)))"

definition inside_polygon :: "ring list \<Rightarrow> real \<times> real \<Rightarrow> bool" where
  "inside_polygon rings p =
     odd (length (filter (crosses p) (concat (map (\<lambda>ring. zip ring (tl ring)) rings))))"

text \<open>
  \<^verbatim>\<open>mask(dataset, shapes, crop=True)\<close>: the samples of the window, with the fill value
  (the no-data value of the dataset, or 0 when it has none) in the cells that belong to no
  shape, and the transform of the window. A window that does not intersect the raster
  raises \<^verbatim>\<open>ValueError\<close> ("Input shapes do not overlap raster."). The samples that the
  dataset itself masks are those equal to its no-data value, which the fill leaves as they
  are. The array is returned with its shape \<open>(count, height, width)\<close>.
\<close>

definition rasterio_mask ::
  "raster \<Rightarrow> ring list list \<Rightarrow> error + ((nat \<times> nat \<times> nat) \<times> band list) \<times> affine" where
  "rasterio_mask dataset shapes =
     (case geometry_window dataset shapes of
        Inl err \<Rightarrow> Inl (if err = WindowError then ValueError else err)
      | Inr (col_off, row_off, w, h) \<Rightarrow>
          (case affine_invert (raster_transform dataset) of
             Inl err \<Rightarrow> Inl err
           | Inr inverse_t \<Rightarrow>
               let fill = (case raster_nodata dataset of None \<Rightarrow> 0 | Some v \<Rightarrow> v);
                   shapes_px = map (map (map (affine_mul inverse_t))) shapes;
                   out_image =
                     map (\<lambda>band.
                            map (\<lambda>r.
                                   map (\<lambda>c.
                                          if list_ex (\<lambda>rings.
                                                        inside_polygon rings
                                                          (real (col_off + c) + 1 / 2,
                                                           real (row_off + r) + 1 / 2))
                                                     shapes_px
                                          then band ! (row_off + r) ! (col_off + c)
                                          else fill)
                                       [0..<w])
                                [0..<h])
                         (raster_bands dataset)
               in Inr (((length (raster_bands dataset), h, w), out_image),
                       window_transform (raster_transform dataset) col_off row_off)))"

text \<open>
  \<^verbatim>\<open>clip_raster_with_polygon\<close>: an exception of the masking call is printed and raised
  again; otherwise the raster written has the masked samples, the transform of the window
  and the height and width of the array, and the other metadata of the source.
\<close>

definition clip_raster_with_polygon :: "raster \<Rightarrow> position list list \<Rightarrow> error + raster" where
  "clip_raster_with_polygon src polygon =
     (let geojson_polygon_2d = make_2d polygon
      in (case rasterio_mask src [geojson_polygon_2d] of
            Inl err \<Rightarrow> Inl err
          | Inr ((shape, out_image), out_transform) \<Rightarrow>
              (case shape of (count, height, width) \<Rightarrow>
                 Inr (Raster out_image out_transform width height (raster_nodata src)))))"

text \<open>The invariant of a raster: it is not empty and every band has its shape.\<close>

definition raster_ok :: "raster \<Rightarrow> bool" where
  "raster_ok src \<longleftrightarrow>
     0 < raster_width src \<and> 0 < raster_height src
     \<and> list_all (\<lambda>band. length band = raster_height src
                         \<and> list_all (\<lambda>row. length row = raster_width src) band)
                (raster_bands src)"

section \<open>Properties of the coordinate conversions\<close>

lemma affine_invert_rotation_free:
  assumes "a \<noteq> 0" and "e \<noteq> 0"
  shows "affine_invert (Affine a 0 c 0 e f) = Inr (Affine (1 / a) 0 (- c / a) 0 (1 / e) (- f / e))"
  using assms by (simp add: Let_def)

lemma convert_geo_to_pixel_coords_rotation_free:
  assumes "a \<noteq> 0" and "e \<noteq> 0"
  shows "convert_geo_to_pixel_coords (minx, miny, maxx, maxy) (Affine a 0 c 0 e f)
         = Inr ((minx - c) / a, (maxy - f) / e, (maxx - c) / a, (miny - f) / e)"
  using assms
  by (simp add: convert_geo_to_pixel_coords_def affine_invert_rotation_free diff_divide_distrib)

lemma shp_to_yolo_row_round_trip:
  assumes "a \<noteq> 0" and "e \<noteq> 0" and "0 < w" and "0 < h"
  shows "\<exists>ann. shp_to_yolo_row (Affine a 0 c 0 e f) w h row = Inr ann
           \<and> ann_class_id ann = 0
           \<and> detection_geom (Affine a 0 c 0 e f) w h ann = bounds_box (geometry_bounds row)"
proof -
  obtain minx miny maxx maxy attrs where r: "row = Feature (minx, miny, maxx, maxy) attrs"
    by (cases row) (metis prod_cases4)
  show ?thesis
    using assms unfolding r
    by (simp add: bounds_box_def shp_to_yolo_row_def convert_geo_to_pixel_coords_rotation_free
                  detection_geom_def Let_def field_simps)
qed

text \<open>
  C1. For a rotation-free, invertible transform and positive image dimensions, writing the
  annotations of a feature set with \<open>shp_to_yolo\<close> and reading them back with
  \<open>detections_to_shp\<close> gives, row by row, exactly the box of the bounds of the original
  geometry (over the reals: no rounding), with class id 0. No row raises.
\<close>

theorem geo_box_round_trip:
  assumes "a \<noteq> 0" and "e \<noteq> 0" and "0 < w" and "0 < h"
  shows "\<exists>anns. shp_to_yolo (Affine a 0 c 0 e f) w h rows = (anns, None)
           \<and> detections_to_shp (Affine a 0 c 0 e f) w h anns
               = map (\<lambda>row. (bounds_box (geometry_bounds row), 0)) rows"
proof (induction rows)
  case Nil
  show ?case by (simp add: detections_to_shp_def)
next
  case (Cons row rows)
  then obtain anns where ih:
    "shp_to_yolo (Affine a 0 c 0 e f) w h rows = (anns, None)"
    "detections_to_shp (Affine a 0 c 0 e f) w h anns
       = map (\<lambda>row. (bounds_box (geometry_bounds row), 0)) rows"
    by blast
  from shp_to_yolo_row_round_trip [OF assms, of c f row] obtain ann where one:
    "shp_to_yolo_row (Affine a 0 c 0 e f) w h row = Inr ann"
    "ann_class_id ann = 0"
    "detection_geom (Affine a 0 c 0 e f) w h ann = bounds_box (geometry_bounds row)"
    by blast
  have "shp_to_yolo (Affine a 0 c 0 e f) w h (row # rows) = (ann # anns, None)"
    using one ih by simp
  moreover have "detections_to_shp (Affine a 0 c 0 e f) w h (ann # anns)
                   = map (\<lambda>row. (bounds_box (geometry_bounds row), 0)) (row # rows)"
    using one ih by (simp add: detections_to_shp_def)
  ultimately show ?case by blast
qed

theorem geo_box_round_trip_witness:
  "(2::real) \<noteq> 0 \<and> (- 2::real) \<noteq> 0 \<and> (0::int) < 50 \<and> (0::int) < 40 \<and>
   (\<exists>anns. shp_to_yolo (Affine 2 0 100 0 (- 2) 200) 50 40
              [Feature (110, 150, 130, 180) [], Feature (100, 120, 200, 200) []] = (anns, None)
      \<and> detections_to_shp (Affine 2 0 100 0 (- 2) 200) 50 40 anns
          = [(box 110 150 130 180, 0), (box 100 120 200 200, 0)])"
proof -
  have h: "(2::real) \<noteq> 0" "(- 2::real) \<noteq> 0" "(0::int) < 50" "(0::int) < 40" by simp_all
  from geo_box_round_trip [OF h, of 100 200
         "[Feature (110, 150, 130, 180) [], Feature (100, 120, 200, 200) []]"]
  show ?thesis by (simp add: bounds_box_def)
qed

text \<open>
  C2, as stated, at a rotated transform: the pixel box returned by the code is not the
  minimum and maximum over the four mapped corners.
\<close>

theorem convert_geo_to_pixel_coords_four_corner_counterexample:
  "convert_geo_to_pixel_coords (0, 0, 2, 2) (Affine 1 1 0 (- 1) 1 0) = Inr (0, 2, 0, 0)
   \<and> spec_four_corner_pixel_box (0, 0, 2, 2) (Affine 1 1 0 (- 1) 1 0) = Inr (- 1, 0, 1, 2)
   \<and> convert_geo_to_pixel_coords (0, 0, 2, 2) (Affine 1 1 0 (- 1) 1 0)
       \<noteq> spec_four_corner_pixel_box (0, 0, 2, 2) (Affine 1 1 0 (- 1) 1 0)"
  by (simp add: convert_geo_to_pixel_coords_def spec_four_corner_pixel_box_def Let_def)

lemma convert_geo_to_pixel_coords_north_up:
  assumes "0 < a" and "e < 0" and "minx \<le> maxx" and "miny \<le> maxy"
  shows "convert_geo_to_pixel_coords (minx, miny, maxx, maxy) (Affine a 0 c 0 e f)
         = spec_four_corner_pixel_box (minx, miny, maxx, maxy) (Affine a 0 c 0 e f)"
proof -
  have nz: "a \<noteq> 0" "e \<noteq> 0" using assms by auto
  have cols: "(minx - c) / a \<le> (maxx - c) / a"
    using assms by (simp add: divide_right_mono)
  have rows: "(maxy - f) / e \<le> (miny - f) / e"
    using assms by (simp add: divide_right_mono_neg)
  show ?thesis
    using cols rows nz
    by (simp add: convert_geo_to_pixel_coords_rotation_free spec_four_corner_pixel_box_def
                  affine_invert_rotation_free Let_def diff_divide_distrib min_def max_def)
qed

text \<open>
  C2, amended. For an invertible transform the conversion maps the two opposite corners
  \<open>(minx, miny)\<close> and \<open>(maxx, maxy)\<close> through the inverse transform and returns the column
  of the first, the row of the second, the column of the second and the row of the first.
  When the transform is rotation-free with \<open>a > 0\<close> and \<open>e < 0\<close> (a north-up raster) and
  the box has \<open>minx \<le> maxx\<close>, \<open>miny \<le> maxy\<close>, that is the minimum and maximum over the
  four mapped corners.
\<close>

theorem convert_geo_to_pixel_coords_two_corners:
  assumes "determinant transform \<noteq> 0"
  shows "\<exists>inverse_t. affine_invert transform = Inr inverse_t
           \<and> convert_geo_to_pixel_coords (minx, miny, maxx, maxy) transform
               = Inr (fst (affine_mul inverse_t (minx, miny)),
                      snd (affine_mul inverse_t (maxx, maxy)),
                      fst (affine_mul inverse_t (maxx, maxy)),
                      snd (affine_mul inverse_t (minx, miny)))
           \<and> ((\<exists>a c e f. transform = Affine a 0 c 0 e f \<and> 0 < a \<and> e < 0)
                 \<and> minx \<le> maxx \<and> miny \<le> maxy
               \<longrightarrow> convert_geo_to_pixel_coords (minx, miny, maxx, maxy) transform
                     = spec_four_corner_pixel_box (minx, miny, maxx, maxy) transform)"
proof -
  obtain a b c d e f where t: "transform = Affine a b c d e f"
    by (cases transform) simp
  obtain inverse_t where inv: "affine_invert transform = Inr inverse_t"
    using assms unfolding t by (simp add: Let_def)
  have two: "convert_geo_to_pixel_coords (minx, miny, maxx, maxy) transform
               = Inr (fst (affine_mul inverse_t (minx, miny)),
                      snd (affine_mul inverse_t (maxx, maxy)),
                      fst (affine_mul inverse_t (maxx, maxy)),
                      snd (affine_mul inverse_t (minx, miny)))"
    unfolding convert_geo_to_pixel_coords_def inv
    by (simp add: split_beta)
  have four: "convert_geo_to_pixel_coords (minx, miny, maxx, maxy) transform
                = spec_four_corner_pixel_box (minx, miny, maxx, maxy) transform"
    if north: "\<exists>a c e f. transform = Affine a 0 c 0 e f \<and> 0 < a \<and> e < 0"
      and box: "minx \<le> maxx" "miny \<le> maxy"
  proof -
    from north obtain a' c' e' f' where
      n: "transform = Affine a' 0 c' 0 e' f'" "0 < a'" "e' < 0"
      by auto
    show ?thesis
      unfolding n(1) by (rule convert_geo_to_pixel_coords_north_up [OF n(2) n(3) box])
  qed
  show ?thesis
  proof (intro exI conjI impI)
    show "affine_invert transform = Inr inverse_t" by (rule inv)
    show "convert_geo_to_pixel_coords (minx, miny, maxx, maxy) transform
            = Inr (fst (affine_mul inverse_t (minx, miny)),
                   snd (affine_mul inverse_t (maxx, maxy)),
                   fst (affine_mul inverse_t (maxx, maxy)),
                   snd (affine_mul inverse_t (minx, miny)))"
      by (rule two)
    assume "(\<exists>a c e f. transform = Affine a 0 c 0 e f \<and> 0 < a \<and> e < 0)
              \<and> minx \<le> maxx \<and> miny \<le> maxy"
    then show "convert_geo_to_pixel_coords (minx, miny, maxx, maxy) transform
                 = spec_four_corner_pixel_box (minx, miny, maxx, maxy) transform"
      using four by simp
  qed
qed

theorem convert_geo_to_pixel_coords_two_corners_witness:
  "determinant (Affine 2 0 100 0 (- 2) 200) \<noteq> 0
   \<and> (\<exists>a c e f. Affine 2 0 100 0 (- 2) 200 = Affine a 0 c 0 e f \<and> 0 < a \<and> e < 0)
   \<and> (110::real) \<le> 130 \<and> (150::real) \<le> 180
   \<and> convert_geo_to_pixel_coords (110, 150, 130, 180) (Affine 2 0 100 0 (- 2) 200)
       = Inr (5, 10, 15, 25)
   \<and> convert_geo_to_pixel_coords (110, 150, 130, 180) (Affine 2 0 100 0 (- 2) 200)
       = spec_four_corner_pixel_box (110, 150, 130, 180) (Affine 2 0 100 0 (- 2) 200)"
proof -
  have h: "determinant (Affine 2 0 100 0 (- 2) 200) \<noteq> 0" by simp
  have n: "\<exists>a c e f. Affine 2 0 100 0 (- 2) 200 = Affine a 0 c 0 e f \<and> 0 < a \<and> e < 0"
    by simp
  have le: "(110::real) \<le> 130" "(150::real) \<le> 180" by simp_all
  from convert_geo_to_pixel_coords_two_corners [OF h, of 110 150 130 180]
  obtain inverse_t where
    imp: "(\<exists>a c e f. Affine 2 0 100 0 (- 2) 200 = Affine a 0 c 0 e f \<and> 0 < a \<and> e < 0)
            \<and> (110::real) \<le> 130 \<and> (150::real) \<le> 180
          \<longrightarrow> convert_geo_to_pixel_coords (110, 150, 130, 180) (Affine 2 0 100 0 (- 2) 200)
                = spec_four_corner_pixel_box (110, 150, 130, 180) (Affine 2 0 100 0 (- 2) 200)"
    by (elim exE conjE)
  have four: "convert_geo_to_pixel_coords (110, 150, 130, 180) (Affine 2 0 100 0 (- 2) 200)
          = spec_four_corner_pixel_box (110, 150, 130, 180) (Affine 2 0 100 0 (- 2) 200)"
    by (rule mp [OF imp]) (intro conjI n le)
  have val: "convert_geo_to_pixel_coords (110, 150, 130, 180) (Affine 2 0 100 0 (- 2) 200)
                   = Inr (5, 10, 15, 25)"
    by (simp add: convert_geo_to_pixel_coords_def Let_def)
  show ?thesis
    by (intro conjI h n le val four)
qed

text \<open>
  C3. On the 100 by 100 raster with transform \<open>(1,0,0,0,1,0)\<close> the line that \<open>shp_to_yolo\<close>
  writes for the box \<open>[10,10]-[30,40]\<close> is \<open>(0, 0.20, 0.25, 0.20, -0.30)\<close> and not
  \<open>(0, 0.20, 0.25, 0.20, 0.30)\<close>: \<open>convert_geo_to_pixel_coords\<close> returns the row of \<open>maxy\<close>
  as the upper pixel row and the row of \<open>miny\<close> as the lower one, which fits a north-up
  transform (\<open>e < 0\<close>) only, so the height comes out negative. The rectangle that
  \<open>draw_bounding_boxes\<close> computes from that line has its top at row 40 and its bottom at
  row 10. Converting the line back gives the geographic box \<open>[10,10]-[30,40]\<close>. On the
  north-up raster with transform \<open>(1,0,0,0,-1,100)\<close> the box with the same pixel extent,
  \<open>[10,60]-[30,90]\<close>, gives the height \<open>0.30\<close>.
\<close>

theorem identity_scenario:
  "shp_to_yolo (Affine 1 0 0 0 1 0) 100 100 [Feature (10, 10, 30, 40) []]
     = ([Annotation 0 0.20 0.25 0.20 (- 0.30)], None)
   \<and> label_rectangle 100 100 (Annotation 0 0.20 0.25 0.20 (- 0.30)) = (10, 40, 30, 10)
   \<and> detections_to_shp (Affine 1 0 0 0 1 0) 100 100 [Annotation 0 0.20 0.25 0.20 (- 0.30)]
       = [(box 10 10 30 40, 0)]
   \<and> shp_to_yolo (Affine 1 0 0 0 (- 1) 100) 100 100 [Feature (10, 60, 30, 90) []]
       = ([Annotation 0 0.20 0.25 0.20 0.30], None)"
  by (simp add: shp_to_yolo_row_def convert_geo_to_pixel_coords_def detections_to_shp_def
                detection_geom_def label_rectangle_def Let_def)

lemma detections_to_shp_rows:
  "detections_to_shp transform src_width src_height detections
     = map (\<lambda>row. (detection_geom transform src_width src_height row, ann_class_id row))
           detections"
  by (induction detections) (simp_all add: detections_to_shp_def)

lemma draw_bounding_boxes_drawn:
  "fst (draw_bounding_boxes rectangle img_width img_height lines)
     = map (label_rectangle img_width img_height)
           (takeWhile (\<lambda>line. rectangle (label_rectangle img_width img_height line) = None)
                      lines)"
  by (induction lines) (auto split: option.splits prod.splits)

lemma draw_bounding_boxes_raised:
  "snd (draw_bounding_boxes rectangle img_width img_height lines)
     = (case dropWhile (\<lambda>line. rectangle (label_rectangle img_width img_height line) = None)
                       lines of
          [] \<Rightarrow> None
        | line # _ \<Rightarrow> rectangle (label_rectangle img_width img_height line))"
  by (induction lines) (auto split: option.splits prod.splits)

text \<open>
  C9, as stated: a detection record with class id \<open>-1\<close> is converted and drawn like any other,
  and so is a record whose width is 0 and whose height is negative; nothing is rejected.
\<close>

theorem negative_class_id_counterexample:
  "detections_to_shp (Affine 1 0 0 0 1 0) 200 200 [Annotation (- 1) 0.5 0.5 0.2 0.2]
     = [(box 80 120 120 80, - 1)]
   \<and> draw_bounding_boxes (\<lambda>r. None) 200 200 [Annotation (- 1) 0.5 0.5 0.2 0.2]
       = ([(80, 80, 120, 120)], None)
   \<and> detections_to_shp (Affine 1 0 0 0 1 0) 200 200 [Annotation 0 0.5 0.5 0 (- 0.2)]
       = [(box 100 80 100 120, 0)]"
  by (simp add: detections_to_shp_def detection_geom_def label_rectangle_def Let_def)

text \<open>
  C9, amended. Neither conversion validates a record. For every transform, every raster
  size and every list of detection records, the rows that \<open>detections_to_shp\<close> gives are,
  record by record and in order, the box spanned by the images under the transform of the
  two corners \<open>((x - w/2) * width, (y - h/2) * height)\<close> and
  \<open>((x + w/2) * width, (y + h/2) * height)\<close> of the record, paired with the class id of the
  record unchanged, whatever the class id, the width and the height of the record are.
  \<open>draw_bounding_boxes\<close> hands the rectangle
  \<open>(x*W - w*W/2, y*H - h*H/2, x*W + w*W/2, y*H + h*H/2)\<close> of each record to the drawing
  call, in order, up to the first record at which the drawing call raises, and raises what
  that call raised; it never looks at the class id: replacing the class ids of the records
  by any others changes nothing.
\<close>

theorem detections_to_shp_accepts_all:
  "detections_to_shp transform src_width src_height detections
     = map (\<lambda>row.
              (box (fst (affine_mul transform
                           ((ann_x_center row - ann_width row / 2) * of_int src_width,
                            (ann_y_center row - ann_height row / 2) * of_int src_height)))
                   (snd (affine_mul transform
                           ((ann_x_center row + ann_width row / 2) * of_int src_width,
                            (ann_y_center row + ann_height row / 2) * of_int src_height)))
                   (fst (affine_mul transform
                           ((ann_x_center row + ann_width row / 2) * of_int src_width,
                            (ann_y_center row + ann_height row / 2) * of_int src_height)))
                   (snd (affine_mul transform
                           ((ann_x_center row - ann_width row / 2) * of_int src_width,
                            (ann_y_center row - ann_height row / 2) * of_int src_height))),
               ann_class_id row))
           detections
   \<and> fst (draw_bounding_boxes rectangle img_width img_height detections)
       = map (\<lambda>row.
                (ann_x_center row * of_int img_width - ann_width row * of_int img_width / 2,
                 ann_y_center row * of_int img_height - ann_height row * of_int img_height / 2,
                 ann_x_center row * of_int img_width + ann_width row * of_int img_width / 2,
                 ann_y_center row * of_int img_height + ann_height row * of_int img_height / 2))
             (takeWhile (\<lambda>row. rectangle (label_rectangle img_width img_height row) = None)
                        detections)
   \<and> snd (draw_bounding_boxes rectangle img_width img_height detections)
       = (case dropWhile (\<lambda>row. rectangle (label_rectangle img_width img_height row) = None)
                         detections of
            [] \<Rightarrow> None
          | row # rest \<Rightarrow> rectangle (label_rectangle img_width img_height row))
   \<and> draw_bounding_boxes rectangle img_width img_height
         (map (\<lambda>row. Annotation (new_class_id row) (ann_x_center row) (ann_y_center row)
                                   (ann_width row) (ann_height row))
              detections)
       = draw_bounding_boxes rectangle img_width img_height detections"
proof -
  have geom: "detections_to_shp transform src_width src_height detections
     = map (\<lambda>row.
              (box (fst (affine_mul transform
                           ((ann_x_center row - ann_width row / 2) * of_int src_width,
                            (ann_y_center row - ann_height row / 2) * of_int src_height)))
                   (snd (affine_mul transform
                           ((ann_x_center row + ann_width row / 2) * of_int src_width,
                            (ann_y_center row + ann_height row / 2) * of_int src_height)))
                   (fst (affine_mul transform
                           ((ann_x_center row + ann_width row / 2) * of_int src_width,
                            (ann_y_center row + ann_height row / 2) * of_int src_height)))
                   (snd (affine_mul transform
                           ((ann_x_center row - ann_width row / 2) * of_int src_width,
                            (ann_y_center row - ann_height row / 2) * of_int src_height))),
               ann_class_id row))
           detections"
    by (simp add: detections_to_shp_rows detection_geom_def Let_def)
  have drawn: "fst (draw_bounding_boxes rectangle img_width img_height detections)
       = map (\<lambda>row.
                (ann_x_center row * of_int img_width - ann_width row * of_int img_width / 2,
                 ann_y_center row * of_int img_height - ann_height row * of_int img_height / 2,
                 ann_x_center row * of_int img_width + ann_width row * of_int img_width / 2,
                 ann_y_center row * of_int img_height + ann_height row * of_int img_height / 2))
             (takeWhile (\<lambda>row. rectangle (label_rectangle img_width img_height row) = None)
                        detections)"
    by (simp add: draw_bounding_boxes_drawn) (simp add: label_rectangle_def Let_def)
  have same: "\<And>row. label_rectangle img_width img_height
                  (Annotation (new_class_id row) (ann_x_center row) (ann_y_center row)
                              (ann_width row) (ann_height row))
                = label_rectangle img_width img_height row"
    by (simp add: label_rectangle_def)
  have ids: "draw_bounding_boxes rectangle img_width img_height
         (map (\<lambda>row. Annotation (new_class_id row) (ann_x_center row) (ann_y_center row)
                                   (ann_width row) (ann_height row))
              detections)
       = draw_bounding_boxes rectangle img_width img_height detections"
    by (induction detections) (simp_all add: same split: option.splits prod.splits)
  show ?thesis
    by (intro conjI geom drawn draw_bounding_boxes_raised ids)
qed

text \<open>
  C10. Every annotation line that \<open>shp_to_yolo\<close> writes has class id 0, whatever the
  geometries and attribute fields of the input rows are.
\<close>

theorem shp_to_yolo_class_id_zero:
  "\<forall>ann \<in> set (fst (shp_to_yolo transform img_width img_height rows)). ann_class_id ann = 0"
proof (induction rows)
  case Nil
  show ?case by simp
next
  case (Cons row rows)
  then show ?case
    by (auto simp: shp_to_yolo_row_def Let_def split: sum.splits prod.splits if_splits)
qed

theorem shp_to_yolo_class_id_zero_witness:
  "fst (shp_to_yolo (Affine 1 0 0 0 (- 1) 100) 100 100
          [Feature (10, 60, 30, 90) [(''class_id'', ''7'')]]) \<noteq> []
   \<and> ann_class_id (hd (fst (shp_to_yolo (Affine 1 0 0 0 (- 1) 100) 100 100
                               [Feature (10, 60, 30, 90) [(''class_id'', ''7'')]]))) = 0"
proof -
  have ne: "fst (shp_to_yolo (Affine 1 0 0 0 (- 1) 100) 100 100
                   [Feature (10, 60, 30, 90) [(''class_id'', ''7'')]]) \<noteq> []"
    by (simp add: shp_to_yolo_row_def convert_geo_to_pixel_coords_def Let_def)
  have "ann_class_id (hd (fst (shp_to_yolo (Affine 1 0 0 0 (- 1) 100) 100 100
                                 [Feature (10, 60, 30, 90) [(''class_id'', ''7'')]]))) = 0"
    by (rule bspec [OF shp_to_yolo_class_id_zero hd_in_set [OF ne]])
  with ne show ?thesis by (rule conjI)
qed

section \<open>Properties of the percentile stretch\<close>


lemma list_ex_valid_mask:
  "list_ex (list_ex id) (map (map valid_sample) band) = list_ex (list_ex valid_sample) band"
  by (simp add: list_ex_iff)

lemma valid_filter_nonempty:
  "list_ex (list_ex valid_sample) band \<longleftrightarrow> filter valid_sample (concat band) \<noteq> []"
  by (auto simp: list_ex_iff filter_empty_conv)


lemma scale_band_eq:
  assumes "list_ex (list_ex valid_sample) band"
    and "np_percentile (filter valid_sample (concat band)) 2 = Some p2"
    and "np_percentile (filter valid_sample (concat band)) 98 = Some p98"
  shows "scale_band band =
           Some (map (map (\<lambda>v. if valid_sample v
                                then times_255 (np_divide (np_clip v p2 p98 - p2) (p98 - p2))
                                else Finite 0)) band)"
  using assms
  by (simp add: scale_band_def list_ex_valid_mask Let_def map2_map_map o_def)

lemma stretch_range:
  assumes "p2 < p98"
  shows "times_255 (np_divide (np_clip v p2 p98 - p2) (p98 - p2))
           = Finite ((np_clip v p2 p98 - p2) / (p98 - p2) * 255)"
    and "0 \<le> (np_clip v p2 p98 - p2) / (p98 - p2) * 255"
    and "(np_clip v p2 p98 - p2) / (p98 - p2) * 255 \<le> 255"
proof -
  have d: "0 < p98 - p2" using assms by simp
  have lo: "p2 \<le> np_clip v p2 p98" and hi: "np_clip v p2 p98 \<le> p98"
    using assms by (simp_all add: np_clip_def)
  show "times_255 (np_divide (np_clip v p2 p98 - p2) (p98 - p2))
           = Finite ((np_clip v p2 p98 - p2) / (p98 - p2) * 255)"
    using d by (simp add: np_divide_def)
  have "0 \<le> (np_clip v p2 p98 - p2) / (p98 - p2)"
    using lo d by simp
  then show "0 \<le> (np_clip v p2 p98 - p2) / (p98 - p2) * 255"
    by (rule mult_nonneg_nonneg) simp
  have "(np_clip v p2 p98 - p2) / (p98 - p2) \<le> 1"
    using hi d by simp
  then have "(np_clip v p2 p98 - p2) / (p98 - p2) * 255 \<le> 1 * 255"
    by (rule mult_right_mono) simp
  then show "(np_clip v p2 p98 - p2) / (p98 - p2) * 255 \<le> 255"
    by (simp only: mult_1)
qed

text \<open>
  Where the two percentiles of the valid samples differ, the stretch of tif2png.py and
  tif\_to\_png\_squares.py is the one specified: for every band with at least one valid
  sample whose 2nd and 98th percentiles over the valid samples are \<open>p2 < p98\<close>, the scaled
  band has the shape of the band, its value at every invalid position is 0, and its value
  at every valid position is \<open>(clip v p2 p98 - p2) / (p98 - p2) * 255\<close>, which lies in
  \<open>[0, 255]\<close>.
\<close>

lemma scale_band_stretch:
  assumes "list_ex (list_ex valid_sample) band"
    and "np_percentile (filter valid_sample (concat band)) 2 = Some p2"
    and "np_percentile (filter valid_sample (concat band)) 98 = Some p98"
    and "p2 < p98"
  shows "\<exists>out. scale_band band = Some out \<and> length out = length band \<and>
           (\<forall>r<length band. length (out ! r) = length (band ! r) \<and>
              (\<forall>c<length (band ! r).
                 (valid_sample (band ! r ! c) \<longrightarrow>
                    out ! r ! c = Finite ((np_clip (band ! r ! c) p2 p98 - p2) / (p98 - p2) * 255)
                    \<and> 0 \<le> (np_clip (band ! r ! c) p2 p98 - p2) / (p98 - p2) * 255
                    \<and> (np_clip (band ! r ! c) p2 p98 - p2) / (p98 - p2) * 255 \<le> 255)
                 \<and> (\<not> valid_sample (band ! r ! c) \<longrightarrow> out ! r ! c = Finite 0)))"
proof (intro exI conjI allI impI)
  let ?out = "map (map (\<lambda>v. if valid_sample v
                                then times_255 (np_divide (np_clip v p2 p98 - p2) (p98 - p2))
                                else Finite 0)) band"
  show "scale_band band = Some ?out"
    by (rule scale_band_eq [OF assms(1-3)])
  show "length ?out = length band" by simp
  fix r assume r: "r < length band"
  show "length (?out ! r) = length (band ! r)" using r by simp
  fix c assume c: "c < length (band ! r)"
  {
    assume v: "valid_sample (band ! r ! c)"
    show "?out ! r ! c = Finite ((np_clip (band ! r ! c) p2 p98 - p2) / (p98 - p2) * 255)"
      using r c v by (simp add: stretch_range(1) [OF assms(4)])
    show "0 \<le> (np_clip (band ! r ! c) p2 p98 - p2) / (p98 - p2) * 255"
      by (rule stretch_range(2) [OF assms(4)])
    show "(np_clip (band ! r ! c) p2 p98 - p2) / (p98 - p2) * 255 \<le> 255"
      by (rule stretch_range(3) [OF assms(4)])
  }
  {
    assume v: "\<not> valid_sample (band ! r ! c)"
    show "?out ! r ! c = Finite 0" using r c v by simp
  }
qed

lemmas stretch_eval =
  scale_band_def np_percentile_def Let_def valid_sample_def nodata_threshold_def
  np_clip_def np_divide_def

lemma scale_band_stretch_example:
  "list_ex (list_ex valid_sample) [[0, 10], [- 340282347 * 10 ^ 30, 20]]
   \<and> np_percentile (filter valid_sample (concat [[0, 10], [- 340282347 * 10 ^ 30, 20]])) 2
       = Some (2 / 5)
   \<and> np_percentile (filter valid_sample (concat [[0, 10], [- 340282347 * 10 ^ 30, 20]])) 98
       = Some (98 / 5)
   \<and> (2 / 5 :: real) < 98 / 5
   \<and> (\<exists>out. scale_band [[0, 10], [- 340282347 * 10 ^ 30, 20]] = Some out
         \<and> out ! 0 ! 1 = Finite (255 / 2) \<and> out ! 1 ! 0 = Finite 0)"
proof -
  let ?band = "[[0, 10], [- 340282347 * 10 ^ 30, 20]] :: band"
  have h1: "list_ex (list_ex valid_sample) ?band"
    by (simp add: valid_sample_def nodata_threshold_def)
  have h2: "np_percentile (filter valid_sample (concat ?band)) 2 = Some (2 / 5)"
    by (simp add: stretch_eval)
  have h3: "np_percentile (filter valid_sample (concat ?band)) 98 = Some (98 / 5)"
    by (simp add: stretch_eval)
  have h4: "(2 / 5 :: real) < 98 / 5" by simp
  from scale_band_stretch [OF h1 h2 h3 h4]
  obtain out where o: "scale_band ?band = Some out"
    and cells: "\<forall>r<length ?band. length (out ! r) = length (?band ! r) \<and>
              (\<forall>c<length (?band ! r).
                 (valid_sample (?band ! r ! c) \<longrightarrow>
                    out ! r ! c = Finite ((np_clip (?band ! r ! c) (2 / 5) (98 / 5) - 2 / 5) / (98 / 5 - 2 / 5) * 255)
                    \<and> 0 \<le> (np_clip (?band ! r ! c) (2 / 5) (98 / 5) - 2 / 5) / (98 / 5 - 2 / 5) * 255
                    \<and> (np_clip (?band ! r ! c) (2 / 5) (98 / 5) - 2 / 5) / (98 / 5 - 2 / 5) * 255 \<le> 255)
                 \<and> (\<not> valid_sample (?band ! r ! c) \<longrightarrow> out ! r ! c = Finite 0))"
    by (elim exE conjE)
  have a: "out ! 0 ! 1 = Finite (255 / 2)"
    using cells [THEN spec, of 0]
    by (simp add: valid_sample_def nodata_threshold_def np_clip_def)
  have b: "out ! 1 ! 0 = Finite 0"
    using cells [THEN spec, of 1]
    by (simp add: valid_sample_def nodata_threshold_def)
  from o a b have "\<exists>out. scale_band ?band = Some out
         \<and> out ! 0 ! 1 = Finite (255 / 2) \<and> out ! 1 ! 0 = Finite 0"
    by simp
  with h1 h2 h3 h4 show ?thesis by (intro conjI)
qed

text \<open>
  C4. A band with one invalid sample whose valid samples are all 5: the percentiles over
  the valid samples coincide, and the scaled band of tif2png.py and tif\_to\_png\_squares.py
  is NaN at every valid position, not a value in \<open>[0, 255]\<close>; the 8-bit array built from
  three such bands is undefined at those positions. In tif\_shp\_to\_yolo\_png\_converter.py
  there is no mask: on the band \<open>[[0, 10], [nodata, 20]]\<close> the percentiles are taken over
  all four samples, the invalid one included (the 2nd percentile is 0.94 times the no-data
  value), where those over the valid samples are 0.4 and 19.6.
\<close>

theorem scale_band_constant_region:
  "scale_band [[5, 5], [- 340282347 * 10 ^ 30, 5]] = Some [[NaN, NaN], [Finite 0, NaN]]
   \<and> valid_sample 5 \<and> \<not> valid_sample (- 340282347 * 10 ^ 30)
   \<and> convert_tif_to_png (\<lambda>array. None)
         [[[5, 5], [- 340282347 * 10 ^ 30, 5]], [[5, 5], [- 340282347 * 10 ^ 30, 5]],
          [[5, 5], [- 340282347 * 10 ^ 30, 5]]]
       = Inr (Some [[[None, None, None], [None, None, None]],
                    [[Some 0, Some 0, Some 0], [None, None, None]]])
   \<and> np_percentile (concat [[0, 10], [- 340282347 * 10 ^ 30, 20]]) 2
       = Some (47 / 50 * (- 340282347 * 10 ^ 30))
   \<and> np_percentile (concat [[0, 10], [- 340282347 * 10 ^ 30, 20]]) 98 = Some (97 / 5)
   \<and> np_percentile (filter valid_sample (concat [[0, 10], [- 340282347 * 10 ^ 30, 20]])) 2
       = Some (2 / 5)
   \<and> np_percentile (filter valid_sample (concat [[0, 10], [- 340282347 * 10 ^ 30, 20]])) 98
       = Some (98 / 5)
   \<and> scale_band_unmasked [[0, 10], [- 340282347 * 10 ^ 30, 20]]
       = Some [[Finite ((0 - 47 / 50 * (- 340282347 * 10 ^ 30))
                        / (97 / 5 - 47 / 50 * (- 340282347 * 10 ^ 30)) * 255),
                Finite ((10 - 47 / 50 * (- 340282347 * 10 ^ 30))
                        / (97 / 5 - 47 / 50 * (- 340282347 * 10 ^ 30)) * 255)],
               [Finite 0, Finite 255]]"
proof -
  have a: "scale_band [[5, 5], [- 340282347 * 10 ^ 30, 5]]
             = Some [[NaN, NaN], [Finite 0, NaN]]"
    by (simp add: stretch_eval)
  have b: "valid_sample 5 \<and> \<not> valid_sample (- 340282347 * 10 ^ 30)"
    by (simp add: valid_sample_def nodata_threshold_def)
  have c: "convert_tif_to_png (\<lambda>array. None)
         [[[5, 5], [- 340282347 * 10 ^ 30, 5]], [[5, 5], [- 340282347 * 10 ^ 30, 5]],
          [[5, 5], [- 340282347 * 10 ^ 30, 5]]]
       = Inr (Some [[[None, None, None], [None, None, None]],
                    [[Some 0, Some 0, Some 0], [None, None, None]]])"
    by (simp add: convert_tif_to_png_def a [simplified] dstack_def astype_uint8_def Let_def
                  upt_rec)
  have d: "np_percentile (concat [[0, 10], [- 340282347 * 10 ^ 30, 20]]) 2
       = Some (47 / 50 * (- 340282347 * 10 ^ 30))"
    by (simp add: np_percentile_def Let_def)
  have e: "np_percentile (concat [[0, 10], [- 340282347 * 10 ^ 30, 20]]) 98 = Some (97 / 5)"
    by (simp add: np_percentile_def Let_def)
  have f: "np_percentile (filter valid_sample (concat [[0, 10], [- 340282347 * 10 ^ 30, 20]])) 2
       = Some (2 / 5)"
    by (simp add: stretch_eval)
  have g: "np_percentile (filter valid_sample (concat [[0, 10], [- 340282347 * 10 ^ 30, 20]])) 98
       = Some (98 / 5)"
    by (simp add: stretch_eval)
  have h: "scale_band_unmasked [[0, 10], [- 340282347 * 10 ^ 30, 20]]
       = Some [[Finite ((0 - 47 / 50 * (- 340282347 * 10 ^ 30))
                        / (97 / 5 - 47 / 50 * (- 340282347 * 10 ^ 30)) * 255),
                Finite ((10 - 47 / 50 * (- 340282347 * 10 ^ 30))
                        / (97 / 5 - 47 / 50 * (- 340282347 * 10 ^ 30)) * 255)],
               [Finite 0, Finite 255]]"
    by (simp add: scale_band_unmasked_def np_percentile_def np_clip_def np_divide_def Let_def)
  from a b c d e f g h show ?thesis by (intro conjI) simp_all
qed

lemma np_percentile_constant:
  assumes ne: "a \<noteq> []" and c: "\<forall>x\<in>set a. x = v" and q: "0 \<le> q" "q \<le> 100"
  shows "np_percentile a q = Some v"
proof -
  let ?s = "sort a"
  let ?n = "length ?s"
  let ?pos = "q / 100 * real (?n - 1)"
  let ?lo = "nat \<lfloor>?pos\<rfloor>"
  let ?hi = "min (?lo + 1) (?n - 1)"
  have n: "0 < ?n" using ne by simp
  have all: "\<And>i. i < ?n \<Longrightarrow> ?s ! i = v"
  proof -
    fix i assume "i < ?n"
    then have "?s ! i \<in> set ?s" by (rule nth_mem)
    then show "?s ! i = v" using c by simp
  qed
  have "?pos \<le> 1 * real (?n - 1)"
    using q by (intro mult_right_mono) simp_all
  then have "?pos \<le> real (?n - 1)" by simp
  then have "\<lfloor>?pos\<rfloor> \<le> int (?n - 1)" by (simp add: floor_le_iff)
  then have lo: "?lo < ?n" using n by linarith
  have "?n - 1 < ?n" using n by simp
  then have hi: "?hi < ?n" by (rule min.strict_coboundedI2)
  have "np_percentile a q = Some (?s ! ?lo + (?pos - real ?lo) * (?s ! ?hi - ?s ! ?lo))"
    using ne by (simp add: np_percentile_def Let_def)
  also have "\<dots> = Some v"
    by (simp only: all [OF lo] all [OF hi]) simp
  finally show ?thesis .
qed

text \<open>
  C5. When all valid samples of a band are equal, both percentiles are that value, the
  scaling divides 0 by 0, and the scaled band is NaN at every valid position (and 0 at the
  invalid ones), not a constant mid-gray; the conversion of NaN to 8 bits is undefined.
\<close>

theorem scale_band_constant_valid:
  assumes "list_ex (list_ex valid_sample) band"
    and "\<forall>x\<in>set (filter valid_sample (concat band)). x = v"
  shows "np_percentile (filter valid_sample (concat band)) 2 = Some v
         \<and> np_percentile (filter valid_sample (concat band)) 98 = Some v
         \<and> np_divide (np_clip v v v - v) (v - v) = NaN
         \<and> scale_band band
             = Some (map (map (\<lambda>x. if valid_sample x then NaN else Finite 0)) band)"
proof -
  have ne: "filter valid_sample (concat band) \<noteq> []"
    using assms(1) by (simp add: valid_filter_nonempty)
  have p2: "np_percentile (filter valid_sample (concat band)) 2 = Some v"
    by (rule np_percentile_constant [OF ne assms(2)]) simp_all
  have p98: "np_percentile (filter valid_sample (concat band)) 98 = Some v"
    by (rule np_percentile_constant [OF ne assms(2)]) simp_all
  have clip: "\<And>x. np_clip x v v = v" by (simp add: np_clip_def)
  have nan: "np_divide (np_clip v v v - v) (v - v) = NaN"
    by (simp add: clip np_divide_def)
  have "scale_band band
          = Some (map (map (\<lambda>x. if valid_sample x then NaN else Finite 0)) band)"
    by (simp add: scale_band_eq [OF assms(1) p2 p98] clip np_divide_def)
  with p2 p98 nan show ?thesis by simp
qed

theorem scale_band_constant_valid_witness:
  "list_ex (list_ex valid_sample) [[5, 5], [5, 5]]
   \<and> scale_band [[5, 5], [5, 5]] = Some [[NaN, NaN], [NaN, NaN]]
   \<and> convert_tif_to_png (\<lambda>array. None)
         [[[5, 5], [5, 5]], [[5, 5], [5, 5]], [[5, 5], [5, 5]]]
       = Inr (Some [[[None, None, None], [None, None, None]],
                    [[None, None, None], [None, None, None]]])"
proof -
  have h1: "list_ex (list_ex valid_sample) [[5, 5], [5, 5]]"
    by (simp add: valid_sample_def nodata_threshold_def)
  have h2: "\<forall>x\<in>set (filter valid_sample (concat [[5, 5], [5, 5]])). x = 5"
    by simp
  have v: "valid_sample 5" by (simp add: valid_sample_def nodata_threshold_def)
  from scale_band_constant_valid [OF h1 h2]
  have s: "scale_band [[5, 5], [5, 5]] = Some [[NaN, NaN], [NaN, NaN]]"
    by (simp add: v)
  have "convert_tif_to_png (\<lambda>array. None)
          [[[5, 5], [5, 5]], [[5, 5], [5, 5]], [[5, 5], [5, 5]]]
       = Inr (Some [[[None, None, None], [None, None, None]],
                    [[None, None, None], [None, None, None]]])"
    by (simp add: convert_tif_to_png_def s dstack_def astype_uint8_def Let_def upt_rec)
  with h1 s show ?thesis by simp
qed






section \<open>Properties of the clipping\<close>

lemma affine_invert_mul:
  assumes "affine_invert t = Inr inverse_t"
  shows "affine_mul inverse_t (affine_mul t p) = p"
proof (cases t)
  case (Affine a b c d e f)
  obtain x y where p: "p = (x, y)" by (cases p)
  define D where "D = a * e - b * d"
  have det: "D \<noteq> 0"
    using assms Affine by (auto simp: D_def split: if_splits)
  have inv: "inverse_t = Affine (e / D) (- b / D) (- c * (e / D) - f * (- b / D))
                                (- d / D) (a / D) (- c * (- d / D) - f * (a / D))"
    using assms Affine det by (simp add: Let_def D_def)
  have "(x * a + y * b + c) * (e / D) + (x * d + y * e + f) * (- b / D)
          + (- c * (e / D) - f * (- b / D)) = x * (a * e - b * d) / D"
    using det by (simp add: field_simps)
  also have "\<dots> = x" using det by (simp add: D_def)
  finally have fst: "(x * a + y * b + c) * (e / D) + (x * d + y * e + f) * (- b / D)
          + (- c * (e / D) - f * (- b / D)) = x" .
  have "(x * a + y * b + c) * (- d / D) + (x * d + y * e + f) * (a / D)
          + (- c * (- d / D) - f * (a / D)) = y * (a * e - b * d) / D"
    using det by (simp add: field_simps)
  also have "\<dots> = y" using det by (simp add: D_def)
  finally have snd: "(x * a + y * b + c) * (- d / D) + (x * d + y * e + f) * (a / D)
          + (- c * (- d / D) - f * (a / D)) = y" .
  show ?thesis
    by (simp only: Affine p inv affine_mul.simps fst snd)
qed

lemma inside_full_extent:
  assumes "0 < px" "px < w" "0 < py" "py < h"
  shows "inside_polygon [[(0, 0), (0, h), (w, h), (w, 0), (0, 0)]] (px, py)"
  using assms by (simp add: inside_polygon_def crosses_def)

lemma nth_grid:
  assumes "length band = h" and "list_all (\<lambda>row. length row = w) band"
  shows "map (\<lambda>r. map (\<lambda>c. band ! r ! c) [0..<w]) [0..<h] = band"
proof (rule nth_equalityI)
  show "length (map (\<lambda>r. map (\<lambda>c. band ! r ! c) [0..<w]) [0..<h]) = length band"
    using assms(1) by simp
next
  fix i assume "i < length (map (\<lambda>r. map (\<lambda>c. band ! r ! c) [0..<w]) [0..<h])"
  then have i: "i < h" by simp
  then have "band ! i \<in> set band" using assms(1) by simp
  then have "length (band ! i) = w" using assms(2) by (simp add: list_all_iff)
  then have "map (\<lambda>c. band ! i ! c) [0..<w] = band ! i"
    using map_nth [of "band ! i"] by simp
  then show "map (\<lambda>r. map (\<lambda>c. band ! r ! c) [0..<w]) [0..<h] ! i = band ! i"
    using i by simp
qed


lemma geometry_window_cases:
  assumes inv: "affine_invert (raster_transform src) = Inr inverse_t"
    and pts: "positions = map (affine_mul inverse_t) (concat (make_2d polygon))"
    and ne: "positions \<noteq> []"
  shows "geometry_window src [make_2d polygon] =
     (if Max (set (map fst positions)) \<le> 0
         \<or> real (raster_width src) \<le> Min (set (map fst positions))
         \<or> Max (set (map snd positions)) \<le> 0
         \<or> real (raster_height src) \<le> Min (set (map snd positions))
      then Inl WindowError
      else Inr (nat (max \<lfloor>Min (set (map fst positions))\<rfloor> 0),
                nat (max \<lfloor>Min (set (map snd positions))\<rfloor> 0),
                nat (min \<lceil>Max (set (map fst positions))\<rceil> (int (raster_width src))
                     - max \<lfloor>Min (set (map fst positions))\<rfloor> 0),
                nat (min \<lceil>Max (set (map snd positions))\<rceil> (int (raster_height src))
                     - max \<lfloor>Min (set (map snd positions))\<rfloor> 0)))"
proof -
  have c: "concat (concat [make_2d polygon]) = concat (make_2d polygon)" by simp
  have ne': "map (affine_mul inverse_t) (concat (make_2d polygon)) \<noteq> []"
    using ne pts by simp
  have a1: "\<And>x w. (\<lfloor>x :: real\<rfloor> < int w) = (x < real w)"
    by (simp add: floor_less_iff)
  have a2: "\<And>x. ((0 :: int) < \<lceil>x :: real\<rceil>) = (0 < x)"
    by (simp add: less_ceiling_iff)
  show ?thesis
    unfolding geometry_window_def inv c pts [symmetric] Let_def sum.case a1 a2
    using ne by (auto simp: not_less not_le)
qed

text \<open>
  C6, amended. For every raster with an invertible transform and every polygon with at
  least one position, \<open>clip_raster_with_polygon\<close> fails, with the \<^verbatim>\<open>ValueError\<close> of the
  masking call raised again unchanged, exactly when the bounding box of the polygon in
  pixel space lies beyond one side of the raster: all columns are at most 0, or all are at
  least the width, or all rows are at most 0, or all are at least the height. For every
  other polygon a raster is returned, also when the polygon itself misses the raster.
\<close>

theorem clip_raster_with_polygon_no_overlap:
  assumes inv: "affine_invert (raster_transform src) = Inr inverse_t"
    and pts: "positions = map (affine_mul inverse_t) (concat (make_2d polygon))"
    and ne: "positions \<noteq> []"
  shows "(clip_raster_with_polygon src polygon = Inl ValueError
          \<longleftrightarrow> Max (set (map fst positions)) \<le> 0
              \<or> real (raster_width src) \<le> Min (set (map fst positions))
              \<or> Max (set (map snd positions)) \<le> 0
              \<or> real (raster_height src) \<le> Min (set (map snd positions)))
         \<and> ((\<exists>out. clip_raster_with_polygon src polygon = Inr out)
              \<longleftrightarrow> \<not> (Max (set (map fst positions)) \<le> 0
                     \<or> real (raster_width src) \<le> Min (set (map fst positions))
                     \<or> Max (set (map snd positions)) \<le> 0
                     \<or> real (raster_height src) \<le> Min (set (map snd positions))))"
proof (cases "Max (set (map fst positions)) \<le> 0
              \<or> real (raster_width src) \<le> Min (set (map fst positions))
              \<or> Max (set (map snd positions)) \<le> 0
              \<or> real (raster_height src) \<le> Min (set (map snd positions))")
  case True
  then have "geometry_window src [make_2d polygon] = Inl WindowError"
    by (simp only: geometry_window_cases [OF inv pts ne] if_True)
  then have "clip_raster_with_polygon src polygon = Inl ValueError"
    by (simp add: clip_raster_with_polygon_def rasterio_mask_def)
  then show ?thesis using True by simp
next
  case False
  then obtain window where "geometry_window src [make_2d polygon] = Inr window"
    by (simp only: geometry_window_cases [OF inv pts ne] if_False)
  then have "\<exists>out. clip_raster_with_polygon src polygon = Inr out"
    by (simp add: clip_raster_with_polygon_def rasterio_mask_def inv Let_def
             split: prod.splits)
  then show ?thesis using False by auto
qed

theorem clip_raster_with_polygon_no_overlap_witness:
  "clip_raster_with_polygon
     (Raster [[[1, 2, 3, 4], [5, 6, 7, 8], [9, 10, 11, 12], [13, 14, 15, 16]]]
             (Affine 1 0 0 0 (- 1) 4) 4 4 None)
     [[(5, 1, []), (7, 1, []), (7, 3, []), (5, 3, []), (5, 1, [])]]
   = Inl ValueError"
proof -
  let ?src = "Raster [[[1, 2, 3, 4], [5, 6, 7, 8], [9, 10, 11, 12], [13, 14, 15, 16]]]
                     (Affine 1 0 0 0 (- 1) 4) 4 4 None"
  let ?polygon = "[[(5, 1, []), (7, 1, []), (7, 3, []), (5, 3, []), (5, 1, [])]]
                    :: position list list"
  have inv: "affine_invert (raster_transform ?src) = Inr (Affine 1 0 0 0 (- 1) 4)"
    by (simp add: Let_def)
  have pts: "[(5, 3), (7, 3), (7, 1), (5, 1), (5, 3)]
               = map (affine_mul (Affine 1 0 0 0 (- 1) 4)) (concat (make_2d ?polygon))"
    by (simp add: make_2d_def)
  have ne: "[(5, 3), (7, 3), (7, 1), (5, 1), (5, 3 :: real)] \<noteq> ([] :: (real \<times> real) list)"
    by simp
  from clip_raster_with_polygon_no_overlap [OF inv pts ne]
  show ?thesis by simp
qed

text \<open>
  C6, as stated: the raster of 4 by 4 cells covers \<open>[0,4] x [0,4]\<close>; the triangle with the
  corners \<open>(-8,2)\<close>, \<open>(2,12)\<close> and \<open>(-8,12)\<close> lies above the line \<open>y = x + 10\<close> and does not
  meet it, but its bounding box does. No error is raised: the clip is the window of 2 by 2
  cells where the bounding box overlaps the raster, every cell filled with 0.
\<close>

theorem clip_outside_polygon_counterexample:
  "clip_raster_with_polygon
     (Raster [[[1, 2, 3, 4], [5, 6, 7, 8], [9, 10, 11, 12], [13, 14, 15, 16]]]
             (Affine 1 0 0 0 (- 1) 4) 4 4 None)
     [[(- 8, 2, []), (2, 12, []), (- 8, 12, []), (- 8, 2, [])]]
   = Inr (Raster [[[0, 0], [0, 0]]] (Affine 1 0 0 0 (- 1) 4) 2 2 None)"
  by (simp add: clip_raster_with_polygon_def make_2d_def rasterio_mask_def geometry_window_def
        inside_polygon_def crosses_def Let_def upt_rec)


lemma geometry_window_full_extent:
  assumes inv: "affine_invert (raster_transform src) = Inr inverse_t"
    and w: "0 < raster_width src" and h: "0 < raster_height src"
  shows "geometry_window src
           [[map (affine_mul (raster_transform src))
               [(0, 0), (0, real (raster_height src)),
                (real (raster_width src), real (raster_height src)),
                (real (raster_width src), 0), (0, 0)]]]
         = Inr (0, 0, raster_width src, raster_height src)"
  using w h
  by (simp add: geometry_window_def inv Let_def affine_invert_mul [OF inv])

lemma mask_full_extent:
  assumes inv: "affine_invert (raster_transform src) = Inr inverse_t"
    and ok: "raster_ok src"
  shows "rasterio_mask src
           [[map (affine_mul (raster_transform src))
               [(0, 0), (0, real (raster_height src)),
                (real (raster_width src), real (raster_height src)),
                (real (raster_width src), 0), (0, 0)]]]
         = Inr (((length (raster_bands src), raster_height src, raster_width src),
                 raster_bands src), raster_transform src)"
proof -
  have w: "0 < raster_width src" and h: "0 < raster_height src"
    using ok by (simp_all add: raster_ok_def)
  have wt: "window_transform (raster_transform src) 0 0 = raster_transform src"
    by (cases "raster_transform src") simp
  have cell: "\<And>r c. r < raster_height src \<Longrightarrow> c < raster_width src \<Longrightarrow>
                inside_polygon [[(0, 0), (0, real (raster_height src)),
                                 (real (raster_width src), real (raster_height src)),
                                 (real (raster_width src), 0), (0, 0)]]
                  (real c + 1 / 2, real r + 1 / 2)"
  proof -
    fix r c assume "r < raster_height src" and "c < raster_width src"
    then have "real r + 1 / 2 < real (raster_height src)"
      and "real c + 1 / 2 < real (raster_width src)"
      by linarith+
    moreover have "0 < real c + 1 / 2" and "0 < real r + 1 / 2" by simp_all
    ultimately show "inside_polygon [[(0, 0), (0, real (raster_height src)),
                                 (real (raster_width src), real (raster_height src)),
                                 (real (raster_width src), 0), (0, 0)]]
                  (real c + 1 / 2, real r + 1 / 2)"
      by (intro inside_full_extent)
  qed
  have band: "\<And>band. band \<in> set (raster_bands src) \<Longrightarrow>
         map (\<lambda>r. map (\<lambda>c.
               if inside_polygon [[(0, 0), (0, real (raster_height src)),
                                   (real (raster_width src), real (raster_height src)),
                                   (real (raster_width src), 0), (0, 0)]]
                    (real c + 1 / 2, real r + 1 / 2)
               then band ! r ! c
               else (case raster_nodata src of None \<Rightarrow> 0 | Some v \<Rightarrow> v))
             [0..<raster_width src]) [0..<raster_height src] = band"
  proof -
    fix band assume b: "band \<in> set (raster_bands src)"
    have "map (\<lambda>r. map (\<lambda>c.
               if inside_polygon [[(0, 0), (0, real (raster_height src)),
                                   (real (raster_width src), real (raster_height src)),
                                   (real (raster_width src), 0), (0, 0)]]
                    (real c + 1 / 2, real r + 1 / 2)
               then band ! r ! c
               else (case raster_nodata src of None \<Rightarrow> 0 | Some v \<Rightarrow> v))
             [0..<raster_width src]) [0..<raster_height src]
          = map (\<lambda>r. map (\<lambda>c. band ! r ! c) [0..<raster_width src]) [0..<raster_height src]"
      by (intro map_cong refl) (simp add: cell)
    also have "\<dots> = band"
      using ok b by (intro nth_grid) (simp_all add: raster_ok_def list_all_iff)
    finally show "map (\<lambda>r. map (\<lambda>c.
               if inside_polygon [[(0, 0), (0, real (raster_height src)),
                                   (real (raster_width src), real (raster_height src)),
                                   (real (raster_width src), 0), (0, 0)]]
                    (real c + 1 / 2, real r + 1 / 2)
               then band ! r ! c
               else (case raster_nodata src of None \<Rightarrow> 0 | Some v \<Rightarrow> v))
             [0..<raster_width src]) [0..<raster_height src] = band" .
  qed
  have px: "map (map (map (affine_mul inverse_t)))
              [[map (affine_mul (raster_transform src))
                  [(0, 0), (0, real (raster_height src)),
                   (real (raster_width src), real (raster_height src)),
                   (real (raster_width src), 0), (0, 0)]]]
            = [[[(0, 0), (0, real (raster_height src)),
                 (real (raster_width src), real (raster_height src)),
                 (real (raster_width src), 0), (0, 0)]]]"
    by (simp add: affine_invert_mul [OF inv])
  have image: "map (\<lambda>band.
           map (\<lambda>r. map (\<lambda>c.
               if inside_polygon [[(0, 0), (0, real (raster_height src)),
                                   (real (raster_width src), real (raster_height src)),
                                   (real (raster_width src), 0), (0, 0)]]
                    (real c + 1 / 2, real r + 1 / 2)
               then band ! r ! c
               else (case raster_nodata src of None \<Rightarrow> 0 | Some v \<Rightarrow> v))
             [0..<raster_width src]) [0..<raster_height src]) (raster_bands src)
         = raster_bands src"
    by (rule map_idI) (rule band)
  show ?thesis
    by (simp only: rasterio_mask_def geometry_window_full_extent [OF inv w h] sum.case
                   prod.case inv Let_def px)
       (simp add: wt image cong: if_cong)
qed


text \<open>
  C7. For every raster that has its shape and an invertible transform, clipping with the
  polygon whose ring is the image of the corners \<open>(0,0)\<close>, \<open>(0,height)\<close>, \<open>(width,height)\<close>,
  \<open>(width,0)\<close> of the pixel grid gives the raster itself: the same bands, transform, width
  and height. For every polygon whose window is \<open>(col_off, row_off, w, h)\<close>, the clipped
  raster has width \<open>w\<close>, height \<open>h\<close> and the transform with the linear part \<open>(a, b, d, e)\<close>
  of the source and the offset that maps pixel \<open>(0,0)\<close> to the point to which the source
  maps pixel \<open>(col_off, row_off)\<close>.
\<close>

theorem clip_raster_with_polygon_full_extent:
  assumes ok: "raster_ok src"
    and t: "raster_transform src = Affine a b c d e f"
    and det: "a * e - b * d \<noteq> 0"
  shows "clip_raster_with_polygon src
           [map (\<lambda>corner. case affine_mul (Affine a b c d e f) corner of (x, y) \<Rightarrow> (x, y, []))
              [(0, 0), (0, real (raster_height src)),
               (real (raster_width src), real (raster_height src)),
               (real (raster_width src), 0), (0, 0)]]
           = Inr src
         \<and> (\<forall>polygon col_off row_off w h.
               geometry_window src [make_2d polygon] = Inr (col_off, row_off, w, h) \<longrightarrow>
               (\<exists>image.
                  clip_raster_with_polygon src polygon
                    = Inr (Raster image
                             (Affine a b (real col_off * a + real row_off * b + c)
                                     d e (real col_off * d + real row_off * e + f))
                             w h (raster_nodata src)))
               \<and> affine_mul (Affine a b (real col_off * a + real row_off * b + c)
                                     d e (real col_off * d + real row_off * e + f)) (0, 0)
                   = affine_mul (Affine a b c d e f) (real col_off, real row_off))"
proof (intro conjI allI impI)
  obtain inverse_t where inv: "affine_invert (raster_transform src) = Inr inverse_t"
    using det by (simp add: t Let_def)
  have m: "make_2d
             [map (\<lambda>corner. case affine_mul (Affine a b c d e f) corner of
                                (x, y) \<Rightarrow> (x, y, []))
                [(0, 0), (0, real (raster_height src)),
                 (real (raster_width src), real (raster_height src)),
                 (real (raster_width src), 0), (0, 0)]]
           = [map (affine_mul (raster_transform src))
                [(0, 0), (0, real (raster_height src)),
                 (real (raster_width src), real (raster_height src)),
                 (real (raster_width src), 0), (0, 0)]]"
    by (simp add: make_2d_def t)
  have "clip_raster_with_polygon src
           [map (\<lambda>corner. case affine_mul (Affine a b c d e f) corner of (x, y) \<Rightarrow> (x, y, []))
              [(0, 0), (0, real (raster_height src)),
               (real (raster_width src), real (raster_height src)),
               (real (raster_width src), 0), (0, 0)]]
        = Inr (Raster (raster_bands src) (raster_transform src) (raster_width src)
                      (raster_height src) (raster_nodata src))"
    by (simp only: clip_raster_with_polygon_def Let_def m mask_full_extent [OF inv ok]
                   sum.case prod.case)
  then show "clip_raster_with_polygon src
           [map (\<lambda>corner. case affine_mul (Affine a b c d e f) corner of (x, y) \<Rightarrow> (x, y, []))
              [(0, 0), (0, real (raster_height src)),
               (real (raster_width src), real (raster_height src)),
               (real (raster_width src), 0), (0, 0)]]
           = Inr src"
    by simp
next
  fix polygon col_off row_off w h
  assume gw: "geometry_window src [make_2d polygon] = Inr (col_off, row_off, w, h)"
  obtain inverse_t where inv: "affine_invert (raster_transform src) = Inr inverse_t"
    using det by (simp add: t Let_def)
  show "\<exists>image.
          clip_raster_with_polygon src polygon
            = Inr (Raster image
                     (Affine a b (real col_off * a + real row_off * b + c)
                             d e (real col_off * d + real row_off * e + f))
                     w h (raster_nodata src))"
    by (simp add: clip_raster_with_polygon_def rasterio_mask_def gw inv Let_def)
       (simp add: t)
next
  fix col_off row_off :: nat
  show "affine_mul (Affine a b (real col_off * a + real row_off * b + c)
                           d e (real col_off * d + real row_off * e + f)) (0, 0)
          = affine_mul (Affine a b c d e f) (real col_off, real row_off)"
    by simp
qed

theorem clip_raster_with_polygon_full_extent_witness:
  "raster_ok (Raster [[[1, 2], [3, 4]]] (Affine 1 0 0 0 (- 1) 2) 2 2 None)
   \<and> clip_raster_with_polygon (Raster [[[1, 2], [3, 4]]] (Affine 1 0 0 0 (- 1) 2) 2 2 None)
       [[(0, 2, []), (0, 0, []), (2, 0, []), (2, 2, []), (0, 2, [])]]
       = Inr (Raster [[[1, 2], [3, 4]]] (Affine 1 0 0 0 (- 1) 2) 2 2 None)
   \<and> geometry_window (Raster [[[1, 2], [3, 4]]] (Affine 1 0 0 0 (- 1) 2) 2 2 None)
       [make_2d [[(1, 0, []), (2, 0, []), (2, 1, []), (1, 1, []), (1, 0, [])]]]
       = Inr (1, 1, 1, 1)
   \<and> (\<exists>image.
         clip_raster_with_polygon (Raster [[[1, 2], [3, 4]]] (Affine 1 0 0 0 (- 1) 2) 2 2 None)
           [[(1, 0, []), (2, 0, []), (2, 1, []), (1, 1, []), (1, 0, [])]]
         = Inr (Raster image (Affine 1 0 1 0 (- 1) 1) 1 1 None))"
proof -
  let ?src = "Raster [[[1, 2], [3, 4]]] (Affine 1 0 0 0 (- 1) 2) 2 2 None"
  have ok: "raster_ok ?src" by (simp add: raster_ok_def)
  have t: "raster_transform ?src = Affine 1 0 0 0 (- 1) 2" by simp
  have det: "(1 :: real) * (- 1) - 0 * 0 \<noteq> 0" by simp
  have gw: "geometry_window ?src
              [make_2d [[(1, 0, []), (2, 0, []), (2, 1, []), (1, 1, []), (1, 0, [])]]]
            = Inr (1, 1, 1, 1)"
    by (simp add: geometry_window_def make_2d_def Let_def)
  note full = clip_raster_with_polygon_full_extent [OF ok t det]
  have a: "clip_raster_with_polygon ?src
             [[(0, 2, []), (0, 0, []), (2, 0, []), (2, 2, []), (0, 2, [])]] = Inr ?src"
    using full [THEN conjunct1] by simp
  have b: "\<exists>image.
         clip_raster_with_polygon ?src
           [[(1, 0, []), (2, 0, []), (2, 1, []), (1, 1, []), (1, 0, [])]]
         = Inr (Raster image (Affine 1 0 1 0 (- 1) 1) 1 1 None)"
    using full [THEN conjunct2, rule_format, OF gw, THEN conjunct1] by simp
  from ok a gw b show ?thesis by (intro conjI)
qed

end
